theory Spec2Isabelle
  imports Main
begin

section \<open>Data model of the SSH server (pkg/ssh/server.go)\<close>

text \<open>
  Go strings and byte slices are sequences of 8-bit values; both are modelled as
  \<^typ>\<open>string\<close> (a list of 8-bit characters), so that \<open>string(payload)\<close> and
  \<open>[]byte(s)\<close> are the identity.
\<close>

type_synonym bytes = string

text \<open>\<open>ssh.Permissions\<close>: only the \<open>Extensions\<close> map is used by the server.\<close>

record Permissions =
  Extensions :: "string \<rightharpoonup> string"

text \<open>
  \<open>ssh.ServerConn\<close>: the authenticated user (\<open>conn.Conn.User()\<close>) and the permissions
  returned by the authentication callback (a nil pointer is \<open>None\<close>).
\<close>

record ServerConn =
  User :: string
  ConnPermissions :: "Permissions option"

text \<open>\<open>ssh.Request\<close>: an out-of-band request on a channel.\<close>

record Request =
  Type :: string
  WantReply :: bool
  Payload :: bytes

text \<open>
  What the request loop of one session channel does, in program order:
  \<open>fmt.Printf\<close>, \<open>channel.Write\<close>, \<open>channel.SendRequest\<close>, \<open>req.Reply\<close>,
  \<open>channel.Close\<close>, and the start of the terminal goroutine by \<open>createTerminal\<close>.
\<close>

datatype chan_event =
    Printf string
  | ChanWrite bytes
  | SendRequest string bool bytes
  | Reply bool
  | ChanClose
  | GoTerminal

section \<open>The command executor\<close>

text \<open>
  \<open>execSomething(conn, payload)\<close>: a switch on \<open>string(payload)\<close>. \<open>%s\<close> of a string
  inserts its bytes unchanged.
\<close>

definition execSomething :: "ServerConn \<Rightarrow> bytes \<Rightarrow> string" where
  "execSomething conn payload =
     (if payload = ''whoami'' then ''You are: '' @ User conn @ ''\<newline>''
      else ''Command Not Found: '' @ payload @ ''\<newline>'')"

section \<open>The request loop of a session channel\<close>

text \<open>\<open>bytes.HasPrefix\<close> and \<open>bytes.TrimPrefix\<close> of the Go standard library.\<close>

definition HasPrefix :: "bytes \<Rightarrow> bytes \<Rightarrow> bool" where
  "HasPrefix s pre = (length s \<ge> length pre \<and> take (length pre) s = pre)"

definition TrimPrefix :: "bytes \<Rightarrow> bytes \<Rightarrow> bytes" where
  "TrimPrefix s pre = (if HasPrefix s pre then drop (length pre) s else s)"

text \<open>
  The command the \<open>exec\<close> case hands to the executor:
  \<open>bytes.TrimPrefix(req.Payload, []byte{0, 0, 0, 6})\<close>.
\<close>

definition exec_command :: "bytes \<Rightarrow> bytes" where
  "exec_command payload = TrimPrefix payload [CHR 0x00, CHR 0x00, CHR 0x00, CHR 0x06]"

text \<open>
  One iteration of \<open>for req := range in\<close> in \<open>handleConnection\<close>: the request type is
  printed, then the switch on \<open>req.Type\<close> runs.
\<close>

definition handle_request :: "ServerConn \<Rightarrow> Request \<Rightarrow> chan_event list" where
  "handle_request conn req =
     Printf (''request type made by client: '' @ Type req @ ''\<newline>'') #
     (if Type req = ''exec'' then
        [ChanWrite (execSomething conn (exec_command (Payload req))),
         SendRequest ''exit-status'' False [CHR 0x00, CHR 0x00, CHR 0x00, CHR 0x00],
         Reply True,
         ChanClose]
      else if Type req = ''shell'' then [Reply True]
      else if Type req = ''pty-req'' then [GoTerminal]
      else [Reply False])"

text \<open>
  The loop itself. It has no \<open>break\<close> and no \<open>return\<close>: every request that the
  transport delivers on the channel is handled, in arrival order, whatever was handled
  before.
\<close>

fun request_loop :: "ServerConn \<Rightarrow> Request list \<Rightarrow> chan_event list" where
  "request_loop conn [] = []"
| "request_loop conn (req # in') = handle_request conn req @ request_loop conn in'"

text \<open>
  The claim about \<open>exec\<close> payloads speaks of the protocol's length-prefixed string
  (RFC 4251: a 32-bit big-endian length followed by that many bytes). The decoder below
  follows those words, not the source; it is what \<open>exec_command\<close> is compared with.
\<close>

definition uint32_be :: "char \<Rightarrow> char \<Rightarrow> char \<Rightarrow> char \<Rightarrow> nat" where
  "uint32_be b3 b2 b1 b0 =
     of_char b3 * 16777216 + of_char b2 * 65536 + of_char b1 * 256 + of_char b0"

fun spec_decode_string :: "bytes \<Rightarrow> bytes option" where
  "spec_decode_string (b3 # b2 # b1 # b0 # rest) =
     (if uint32_be b3 b2 b1 b0 = length rest then Some rest else None)"
| "spec_decode_string _ = None"

section \<open>Channel-open events of one connection\<close>

text \<open>\<open>ssh.RejectionReason\<close>.\<close>

datatype RejectionReason = Prohibited | ConnectionFailed | UnknownChannelType | ResourceShortage

text \<open>
  \<open>ssh.NewChannel\<close>: the declared type, and what \<open>Accept()\<close> returns when it is
  called: an error, or the channel, given here by the requests the peer sends on it.
\<close>

record NewChannel =
  ChannelType :: string
  Accept :: "string + Request list"

text \<open>
  What \<open>handleConnection\<close> does for a channel-open event: it rejects it, or prints that
  \<open>Accept\<close> failed, or starts the goroutine that runs the request loop of the accepted
  channel (given with the goroutine's own effects).
\<close>

datatype conn_event =
    Reject RejectionReason string
  | ConnPrintf string
  | GoRequestLoop "chan_event list"

text \<open>\<open>for newChannel := range chans\<close>: ends when the transport closes \<open>chans\<close>.\<close>

fun handleConnection :: "ServerConn \<Rightarrow> NewChannel list \<Rightarrow> conn_event list" where
  "handleConnection conn [] = []"
| "handleConnection conn (newChannel # chans) =
     (if ChannelType newChannel \<noteq> ''session'' then
        Reject UnknownChannelType ''unknown channel type'' # handleConnection conn chans
      else
        (case Accept newChannel of
           Inl err \<Rightarrow>
             ConnPrintf (''could not accept channel: '' @ err @ ''\<newline>'') #
             handleConnection conn chans
         | Inr requests \<Rightarrow>
             GoRequestLoop (request_loop conn requests) # handleConnection conn chans))"

section \<open>The interactive terminal\<close>

text \<open>
  The goroutine started by \<open>createTerminal\<close>. Its input is the sequence of results of
  the successive \<open>termInstance.ReadLine()\<close> calls: \<open>Inr line\<close>, or \<open>Inl err\<close>. Its
  effects are recorded in program order.
\<close>

datatype term_event =
    ReadLine string
  | TermWrite bytes
  | TermPrintf string
  | TermChanClose

text \<open>Where the goroutine stands once the given read results are used up.\<close>

datatype term_status = WaitingInReadLine | Finished

text \<open>The \<open>switch line\<close> of the loop body. No case leaves the loop.\<close>

definition eval_line :: "ServerConn \<Rightarrow> string \<Rightarrow> term_event list" where
  "eval_line conn line =
     (if line = ''whoami'' then [TermWrite (execSomething conn ''whoami'')]
      else if line = [] then []
      else if line = ''quit'' then [TermWrite ''Goodbye!\<newline>'', TermChanClose]
      else [TermWrite ''Command not found\<newline>''])"

text \<open>
  The loop: the only exit is the \<open>break\<close> taken when \<open>ReadLine\<close> returns an error,
  after which the deferred \<open>channel.Close()\<close> runs.
\<close>

fun createTerminal :: "ServerConn \<Rightarrow> (string + string) list \<Rightarrow> term_event list \<times> term_status" where
  "createTerminal conn [] = ([], WaitingInReadLine)"
| "createTerminal conn (Inl err # _) =
     ([TermPrintf (''ReadLine error: '' @ err), TermChanClose], Finished)"
| "createTerminal conn (Inr line # reads) =
     (case createTerminal conn reads of
        (evs, st) \<Rightarrow> (ReadLine line # eval_line conn line @ evs, st))"

section \<open>Server start: authorized keys, authentication callback, accept loop\<close>

text \<open>
  The functions of \<open>golang.org/x/crypto/ssh\<close> that \<open>StartServer\<close> calls are not part
  of the repository; they are parameters of the model. \<open>'k\<close> is \<open>ssh.PublicKey\<close>.
  \<open>ParseAuthorizedKey\<close> returns an error, or the first key of its input and the
  unparsed rest.
\<close>

record 'k ssh_library =
  ParseAuthorizedKey :: "bytes \<Rightarrow> string + ('k \<times> bytes)"
  Marshal :: "'k \<Rightarrow> bytes"
  FingerprintSHA256 :: "'k \<Rightarrow> string"
  ParsePrivateKey :: "bytes \<Rightarrow> string + bytes"

text \<open>The errors that \<open>StartServer\<close> and its authentication callback build.\<close>

datatype error =
    ErrParseAuthorizedKeys string
  | ErrParsePrivateKey string
  | ErrListen string
  | ErrUnknownPublicKey string

text \<open>
  \<open>authorizedKeysMap\<close> is a \<open>map[string]bool\<close>; indexing it with an absent key gives
  \<open>false\<close>.
\<close>

definition map_index :: "(bytes \<rightharpoonup> bool) \<Rightarrow> bytes \<Rightarrow> bool" where
  "map_index m k = (case m k of None \<Rightarrow> False | Some b \<Rightarrow> b)"

text \<open>
  \<open>for len(authorizedKeys) > 0 { ... }\<close>. Whether the loop ends depends on the rest
  that the library hands back; a run that never ends is \<open>None\<close>.
\<close>

partial_function (option) load_authorized_keys ::
  "'k ssh_library \<Rightarrow> (bytes \<rightharpoonup> bool) \<Rightarrow> bytes \<Rightarrow> (error + (bytes \<rightharpoonup> bool)) option" where
  "load_authorized_keys lib authorizedKeysMap authorizedKeys =
     (if length authorizedKeys > 0 then
        (case ParseAuthorizedKey lib authorizedKeys of
           Inl err \<Rightarrow> Some (Inl (ErrParseAuthorizedKeys err))
         | Inr (pubKey, rest) \<Rightarrow>
             load_authorized_keys lib (authorizedKeysMap(Marshal lib pubKey \<mapsto> True)) rest)
      else Some (Inr authorizedKeysMap))"

declare load_authorized_keys.simps [code]

text \<open>
  \<open>ssh.ServerConfig\<close>, as far as \<open>StartServer\<close> fills it: the authentication callback,
  applied to the connecting user \<open>c.User()\<close> and the offered key, and the host keys.
\<close>

record 'k ServerConfig =
  PublicKeyCallback :: "string \<Rightarrow> 'k \<Rightarrow> error + Permissions"
  HostKeys :: "bytes list"

text \<open>
  The function literal that \<open>StartServer\<close> stores in \<open>PublicKeyCallback\<close>; it closes
  over \<open>authorizedKeysMap\<close>.
\<close>

definition pubkey_callback ::
  "'k ssh_library \<Rightarrow> (bytes \<rightharpoonup> bool) \<Rightarrow> string \<Rightarrow> 'k \<Rightarrow> error + Permissions" where
  "pubkey_callback lib authorizedKeysMap user pubKey =
     (if map_index authorizedKeysMap (Marshal lib pubKey) then
        Inr \<lparr>Extensions = [''pubkey-fp'' \<mapsto> FingerprintSHA256 lib pubKey]\<rparr>
      else Inl (ErrUnknownPublicKey user))"

text \<open>
  One iteration of the accept loop receives from the outside the result of
  \<open>listener.Accept()\<close> and, when that succeeded, the result of the handshake
  \<open>ssh.NewServerConn\<close>.
\<close>

datatype incoming =
    AcceptFails string
  | HandshakeFails string
  | HandshakeSucceeds ServerConn

datatype server_event =
    LogPrintln string
  | LogPrintf string
  | SrvPrintf string
  | GoDiscardRequests
  | GoHandleConnection ServerConn

text \<open>
  The body of \<open>for { ... }\<close>, over the connection attempts that have arrived so far.
  The loop contains no \<open>return\<close> and no \<open>break\<close>.
\<close>

fun accept_loop :: "incoming list \<Rightarrow> server_event list" where
  "accept_loop [] = []"
| "accept_loop (AcceptFails err # later) =
     SrvPrintf (''listener accept error: '' @ err @ ''\<newline>'') # accept_loop later"
| "accept_loop (HandshakeFails err # later) =
     SrvPrintf (''new server conn error: '' @ err @ ''\<newline>'') # accept_loop later"
| "accept_loop (HandshakeSucceeds conn # later) =
     (case ConnPermissions conn of
        None \<Rightarrow> []
      | Some perms \<Rightarrow>
          [LogPrintf (''logged in with key '' @
             (case Extensions perms ''pubkey-fp'' of None \<Rightarrow> [] | Some fp \<Rightarrow> fp))]) @
     GoDiscardRequests # GoHandleConnection conn # accept_loop later"

text \<open>
  \<open>StartServer\<close> either has returned an error to its caller, or is in its accept loop
  with the configuration it built, having produced the given effects for the connection
  attempts received so far.
\<close>

datatype 'k outcome = Returns error | Serving "'k ServerConfig" "server_event list"

text \<open>
  \<open>StartServer(privateKey, authorizedKeys)\<close>, with the error of \<open>net.Listen\<close> (\<open>None\<close>
  is nil) and the connection attempts that arrive. The result \<open>None\<close> stands for a
  key-loading loop that never ends.
\<close>

definition StartServer ::
  "'k ssh_library \<Rightarrow> bytes \<Rightarrow> bytes \<Rightarrow> string option \<Rightarrow> incoming list \<Rightarrow> 'k outcome option" where
  "StartServer lib privateKey authorizedKeys listen_err arrivals =
     (case load_authorized_keys lib Map.empty authorizedKeys of
        None \<Rightarrow> None
      | Some (Inl e) \<Rightarrow> Some (Returns e)
      | Some (Inr authorizedKeysMap) \<Rightarrow>
          (case ParsePrivateKey lib privateKey of
             Inl err \<Rightarrow> Some (Returns (ErrParsePrivateKey err))
           | Inr private \<Rightarrow>
               (case listen_err of
                  Some err \<Rightarrow> Some (Returns (ErrListen err))
                | None \<Rightarrow>
                    Some (Serving
                      \<lparr>PublicKeyCallback = pubkey_callback lib authorizedKeysMap,
                       HostKeys = [private]\<rparr>
                      (LogPrintln ''SSH server started on port 2022'' #
                       accept_loop arrivals)))))"

text \<open>
  A small stand-in for the library, used only to evaluate the model on concrete
  inputs: keys are their own marshaled bytes, an authorized-keys entry is one line, and
  any non-empty private key parses.
\<close>

definition example_library :: "bytes ssh_library" where
  "example_library =
     \<lparr>ParseAuthorizedKey =
        (\<lambda>inp. if inp = [] then Inl ''ssh: no key found''
               else Inr (takeWhile (\<lambda>c. c \<noteq> CHR 0x0A) inp,
                         drop 1 (dropWhile (\<lambda>c. c \<noteq> CHR 0x0A) inp))),
      Marshal = (\<lambda>k. k),
      FingerprintSHA256 = (\<lambda>k. ''SHA256:'' @ k),
      ParsePrivateKey = (\<lambda>pem. if pem = [] then Inl ''ssh: no key found'' else Inr pem)\<rparr>"

section \<open>The client (cmd/client.go)\<close>

text \<open>
  The error of \<open>session.Run\<close> and \<open>session.Wait\<close>: an \<open>*ssh.ExitError\<close> with the exit
  status the remote side reported, or any other error.
\<close>

datatype session_error = ExitError int | OtherError string

text \<open>
  What the operating system and the SSH library answer to the calls the client makes,
  in the order it makes them; \<open>None\<close> is a nil error.
\<close>

record client_world =
  ParseDuration :: "string \<Rightarrow> string option"
  ReadFile :: "string \<Rightarrow> string + bytes"
  ClientParsePrivateKey :: "bytes \<Rightarrow> string option"
  Dial :: "string \<Rightarrow> string option"
  NewSession :: "string option"
  Run :: "string \<Rightarrow> session_error option"
  RequestPty :: "string option"
  Shell :: "string option"
  Wait :: "session_error option"

record client_flags =
  host :: string
  port :: string
  user :: string
  clientKeyPath :: string
  command :: string
  timeout :: string

text \<open>How the \<open>Run\<close> function of \<open>clientCmd\<close> ends: \<open>os.Exit(code)\<close>, or a normal return.\<close>

datatype client_end = OsExit int | NormalReturn

text \<open>
  The \<open>Run\<close> function of \<open>clientCmd\<close>. Coloured output, the spinner and logging are
  left out; every \<open>os.Exit\<close> is kept.
\<close>

definition clientCmd :: "client_world \<Rightarrow> client_flags \<Rightarrow> client_end" where
  "clientCmd w f =
     (case ParseDuration w (timeout f) of
        Some err \<Rightarrow> OsExit 1
      | None \<Rightarrow>
     (case ReadFile w (clientKeyPath f) of
        Inl err \<Rightarrow> OsExit 1
      | Inr privateKeyBytes \<Rightarrow>
     (case ClientParsePrivateKey w privateKeyBytes of
        Some err \<Rightarrow> OsExit 1
      | None \<Rightarrow>
     (case Dial w (host f @ '':'' @ port f) of
        Some err \<Rightarrow> OsExit 1
      | None \<Rightarrow>
     (case NewSession w of
        Some err \<Rightarrow> OsExit 1
      | None \<Rightarrow>
     (if command f \<noteq> [] then
        (case Run w (command f) of
           Some err \<Rightarrow> OsExit 1
         | None \<Rightarrow> NormalReturn)
      else
        (case RequestPty w of
           Some err \<Rightarrow> OsExit 1
         | None \<Rightarrow>
        (case Shell w of
           Some err \<Rightarrow> OsExit 1
         | None \<Rightarrow>
        (case Wait w of
           None \<Rightarrow> NormalReturn
         | Some (ExitError status) \<Rightarrow> OsExit status
         | Some (OtherError msg) \<Rightarrow> OsExit 1)))))))))"

text \<open>
  A run used to evaluate the client on a concrete input: every step up to the session
  succeeds, and the remote side reports exit status 3, to \<open>session.Run\<close> as to
  \<open>session.Wait\<close>.
\<close>

definition example_world :: client_world where
  "example_world =
     \<lparr>ParseDuration = (\<lambda>t. None), ReadFile = (\<lambda>p. Inr ''key''),
      ClientParsePrivateKey = (\<lambda>k. None), Dial = (\<lambda>a. None), NewSession = None,
      Run = (\<lambda>c. Some (ExitError 3)), RequestPty = None, Shell = None,
      Wait = Some (ExitError 3)\<rparr>"

section \<open>The command executor: results\<close>

text \<open>
  C6. For every authenticated user, the executor applied to \<open>whoami\<close> returns exactly
  \<open>You are: <user>\n\<close>; applied to any other command it returns exactly
  \<open>Command Not Found: <command>\n\<close>. The executor is a function of the connection and
  the command alone: it changes no state.
\<close>

theorem execSomething_table:
  "execSomething conn ''whoami'' = ''You are: '' @ User conn @ ''\<newline>'' \<and>
   (c \<noteq> ''whoami'' \<longrightarrow> execSomething conn c = ''Command Not Found: '' @ c @ ''\<newline>'')"
  by (simp add: execSomething_def)

theorem execSomething_table_witness:
  "execSomething \<lparr>User = ''alice'', ConnPermissions = None\<rparr> ''whoami'' = ''You are: alice\<newline>'' \<and>
   ''rm -rf /'' \<noteq> ''whoami'' \<and>
   execSomething \<lparr>User = ''alice'', ConnPermissions = None\<rparr> ''rm -rf /'' =
     ''Command Not Found: rm -rf /\<newline>''"
  using execSomething_table [of "\<lparr>User = ''alice'', ConnPermissions = None\<rparr>" "''rm -rf /''"]
  by simp

section \<open>Decoding the payload of an exec request\<close>

lemma uint32_be_6:
  assumes "uint32_be b3 b2 b1 b0 = 6"
  shows "[b3, b2, b1, b0] = [CHR 0x00, CHR 0x00, CHR 0x00, CHR 0x06]"
proof -
  define n3 n2 n1 n0 :: nat where "n3 = of_char b3" and "n2 = of_char b2"
    and "n1 = of_char b1" and "n0 = of_char b0"
  from assms have e: "n3 * 16777216 + n2 * 65536 + n1 * 256 + n0 = 6"
    by (simp add: uint32_be_def n3_def n2_def n1_def n0_def)
  have z3: "n3 = 0"
  proof (rule ccontr)
    assume "n3 \<noteq> 0"
    then have "1 \<le> n3" by simp
    then have "1 * 16777216 \<le> n3 * 16777216" by (rule mult_le_mono1)
    with e show False by simp
  qed
  have z2: "n2 = 0"
  proof (rule ccontr)
    assume "n2 \<noteq> 0"
    then have "1 \<le> n2" by simp
    then have "1 * 65536 \<le> n2 * 65536" by (rule mult_le_mono1)
    with e show False by simp
  qed
  have z1: "n1 = 0"
  proof (rule ccontr)
    assume "n1 \<noteq> 0"
    then have "1 \<le> n1" by simp
    then have "1 * 256 \<le> n1 * 256" by (rule mult_le_mono1)
    with e show False by simp
  qed
  from e z3 z2 z1 have z0: "n0 = 6" by simp
  have "of_char b3 = (of_char (CHR 0x00) :: nat)" using z3 by (simp add: n3_def)
  moreover have "of_char b2 = (of_char (CHR 0x00) :: nat)" using z2 by (simp add: n2_def)
  moreover have "of_char b1 = (of_char (CHR 0x00) :: nat)" using z1 by (simp add: n1_def)
  moreover have "of_char b0 = (of_char (CHR 0x06) :: nat)" using z0 by (simp add: n0_def)
  ultimately show ?thesis by (simp only: of_char_eq_iff)
qed

text \<open>
  The trimmed prefix is the length field of a six-byte command. A well-formed payload
  is decoded to its command exactly when the command has six bytes; for every other
  length the four length bytes stay in front of what the executor receives.
\<close>

lemma exec_command_length_6:
  assumes "spec_decode_string payload = Some cmd" and "length cmd = 6"
  shows "exec_command payload = cmd"
proof -
  from assms(1) obtain b3 b2 b1 b0 where p: "payload = b3 # b2 # b1 # b0 # cmd"
    and len: "uint32_be b3 b2 b1 b0 = length cmd"
    by (cases payload rule: spec_decode_string.cases) (auto split: if_splits)
  from len assms(2) have "[b3, b2, b1, b0] = [CHR 0x00, CHR 0x00, CHR 0x00, CHR 0x06]"
    by (simp add: uint32_be_6)
  then show ?thesis
    by (simp add: p exec_command_def TrimPrefix_def HasPrefix_def)
qed

lemma exec_command_other_length:
  assumes "spec_decode_string payload = Some cmd" and "length cmd \<noteq> 6"
  shows "exec_command payload = payload"
proof -
  from assms(1) obtain b3 b2 b1 b0 where p: "payload = b3 # b2 # b1 # b0 # cmd"
    and len: "uint32_be b3 b2 b1 b0 = length cmd"
    by (cases payload rule: spec_decode_string.cases) (auto split: if_splits)
  have "[b3, b2, b1, b0] \<noteq> [CHR 0x00, CHR 0x00, CHR 0x00, CHR 0x06]"
  proof
    assume "[b3, b2, b1, b0] = [CHR 0x00, CHR 0x00, CHR 0x00, CHR 0x06]"
    then have "uint32_be b3 b2 b1 b0 = 6" by (simp add: uint32_be_def)
    with len assms(2) show False by simp
  qed
  then show ?thesis
    by (auto simp add: p exec_command_def TrimPrefix_def HasPrefix_def)
qed

text \<open>
  C1. The claim: from every exec payload that is the length-prefixed encoding of a
  command, the server decodes exactly that command and hands it to the executor. At
  the payload \<open>00 00 00 02 6c 73\<close>, the encoding of \<open>ls\<close>, the source hands the
  whole payload, length bytes included, to the executor, and the text written to the
  channel carries them.
\<close>

theorem exec_command_ls:
  "spec_decode_string (CHR 0x00 # CHR 0x00 # CHR 0x00 # CHR 0x02 # ''ls'') = Some ''ls'' \<and>
   exec_command (CHR 0x00 # CHR 0x00 # CHR 0x00 # CHR 0x02 # ''ls'') =
     CHR 0x00 # CHR 0x00 # CHR 0x00 # CHR 0x02 # ''ls'' \<and>
   handle_request \<lparr>User = ''alice'', ConnPermissions = None\<rparr>
     \<lparr>Type = ''exec'', WantReply = True,
      Payload = CHR 0x00 # CHR 0x00 # CHR 0x00 # CHR 0x02 # ''ls''\<rparr> =
     [Printf ''request type made by client: exec\<newline>'',
      ChanWrite (''Command Not Found: '' @ CHR 0x00 # CHR 0x00 # CHR 0x00 # CHR 0x02 # ''ls\<newline>''),
      SendRequest ''exit-status'' False [CHR 0x00, CHR 0x00, CHR 0x00, CHR 0x00],
      Reply True,
      ChanClose]"
  by (simp add: uint32_be_def exec_command_def TrimPrefix_def HasPrefix_def
      handle_request_def execSomething_def)

section \<open>The request loop over a stream of requests\<close>

lemma request_loop_append:
  "request_loop conn (xs @ ys) = request_loop conn xs @ request_loop conn ys"
  by (induction xs) simp_all

section \<open>Requests after an exec\<close>

text \<open>
  What holds of a single \<open>exec\<close> request, whatever its payload: the handler writes the
  executor's result to the channel, then sends an \<open>exit-status\<close> request whose payload
  is the four zero bytes, acknowledges the request, and then closes the channel, in
  that order.
\<close>

lemma exec_request_effects:
  "handle_request conn \<lparr>Type = ''exec'', WantReply = w, Payload = p\<rparr> =
     [Printf ''request type made by client: exec\<newline>'',
      ChanWrite (execSomething conn (exec_command p)),
      SendRequest ''exit-status'' False [CHR 0x00, CHR 0x00, CHR 0x00, CHR 0x00],
      Reply True,
      ChanClose]"
  by (simp add: handle_request_def)

text \<open>
  In the loop, the \<open>exec\<close> case ends with \<open>channel.Close()\<close> and no \<open>return\<close>: wherever
  an \<open>exec\<close> request stands in the stream of a channel, the requests after it are
  handled as they would be without it.
\<close>

lemma exec_in_stream:
  "request_loop conn (before @ \<lparr>Type = ''exec'', WantReply = w, Payload = p\<rparr> # after) =
   request_loop conn before @
   [Printf ''request type made by client: exec\<newline>'',
    ChanWrite (execSomething conn (exec_command p)),
    SendRequest ''exit-status'' False [CHR 0x00, CHR 0x00, CHR 0x00, CHR 0x00],
    Reply True,
    ChanClose] @
   request_loop conn after"
  by (simp add: request_loop_append handle_request_def)


section \<open>Requests after a terminal was started\<close>

text \<open>
  C2, as stated: an exec request received after a pty-req on the same channel is
  rejected rather than executed. On the channel that receives \<open>pty-req\<close> and then
  \<open>exec whoami\<close>, the source starts the terminal and then executes the command,
  acknowledges the request and closes the channel.
\<close>

theorem exec_after_pty_counterexample:
  "request_loop \<lparr>User = ''alice'', ConnPermissions = None\<rparr>
     [\<lparr>Type = ''pty-req'', WantReply = True, Payload = []\<rparr>,
      \<lparr>Type = ''exec'', WantReply = True,
       Payload = CHR 0x00 # CHR 0x00 # CHR 0x00 # CHR 0x06 # ''whoami''\<rparr>] =
     [Printf ''request type made by client: pty-req\<newline>'',
      GoTerminal,
      Printf ''request type made by client: exec\<newline>'',
      ChanWrite ''You are: alice\<newline>'',
      SendRequest ''exit-status'' False [CHR 0x00, CHR 0x00, CHR 0x00, CHR 0x00],
      Reply True,
      ChanClose]"
  by (simp add: exec_command_def TrimPrefix_def HasPrefix_def handle_request_def
      execSomething_def)

text \<open>
  C2, amended. The request loop keeps no record of the mode of its channel: an exec
  request that arrives after a pty-req, whatever came before and between them, is
  handled as every exec request is. Its result is written, exit status 0 is sent, the
  request is acknowledged and the channel is closed; it is not rejected.
\<close>

theorem exec_after_pty_is_executed:
  "request_loop conn
     (before @ \<lparr>Type = ''pty-req'', WantReply = w, Payload = p\<rparr> # between @
      [\<lparr>Type = ''exec'', WantReply = w', Payload = p'\<rparr>]) =
   request_loop conn before @
   [Printf ''request type made by client: pty-req\<newline>'', GoTerminal] @
   request_loop conn between @
   [Printf ''request type made by client: exec\<newline>'',
    ChanWrite (execSomething conn (exec_command p')),
    SendRequest ''exit-status'' False [CHR 0x00, CHR 0x00, CHR 0x00, CHR 0x00],
    Reply True,
    ChanClose]"
  by (simp add: request_loop_append handle_request_def)

section \<open>Channel types\<close>

lemma handleConnection_append:
  "handleConnection conn (xs @ ys) = handleConnection conn xs @ handleConnection conn ys"
  by (induction xs) (simp_all split: sum.splits)

text \<open>
  C8. A channel-open event whose type is not \<open>session\<close> is rejected with the reason
  \<open>unknown channel type\<close>, and the loop goes on: the events that follow it on the
  connection are handled as they would be without it.
\<close>

theorem non_session_channel_rejected:
  assumes "ChannelType newChannel \<noteq> ''session''"
  shows "handleConnection conn (earlier @ newChannel # later) =
         handleConnection conn earlier @
         Reject UnknownChannelType ''unknown channel type'' # handleConnection conn later"
  using assms by (simp add: handleConnection_append)

theorem non_session_channel_rejected_witness:
  "ChannelType \<lparr>ChannelType = ''shell-proxy'', Accept = Inr []\<rparr> \<noteq> ''session'' \<and>
   handleConnection \<lparr>User = ''alice'', ConnPermissions = None\<rparr>
     [\<lparr>ChannelType = ''shell-proxy'', Accept = Inr []\<rparr>,
      \<lparr>ChannelType = ''session'',
       Accept = Inr [\<lparr>Type = ''shell'', WantReply = True, Payload = []\<rparr>]\<rparr>] =
     [Reject UnknownChannelType ''unknown channel type'',
      GoRequestLoop [Printf ''request type made by client: shell\<newline>'', Reply True]]"
  using non_session_channel_rejected
    [of "\<lparr>ChannelType = ''shell-proxy'', Accept = Inr []\<rparr>"
        "\<lparr>User = ''alice'', ConnPermissions = None\<rparr>" "[]"
        "[\<lparr>ChannelType = ''session'',
           Accept = Inr [\<lparr>Type = ''shell'', WantReply = True, Payload = []\<rparr>]\<rparr>]"]
  by (simp add: handle_request_def)

section \<open>The interactive terminal: quit and the empty line\<close>

text \<open>
  What holds of the loop: an empty line has no effect at all, and a \<open>quit\<close> that is
  followed by a failing read writes one farewell line and closes the channel (once in
  the \<open>quit\<close> case, once more by the deferred call).
\<close>

lemma empty_line_no_effect:
  "eval_line conn [] = [] \<and>
   createTerminal conn (Inr [] # reads) =
     (ReadLine [] # fst (createTerminal conn reads), snd (createTerminal conn reads))"
  by (simp add: eval_line_def split: prod.splits)

lemma quit_then_read_error:
  "createTerminal conn (Inr ''quit'' # Inl err # reads) =
   ([ReadLine ''quit'', TermWrite ''Goodbye!\<newline>'', TermChanClose,
     TermPrintf (''ReadLine error: '' @ err), TermChanClose], Finished)"
  by (simp add: eval_line_def)

text \<open>
  C5. The claim: reading \<open>quit\<close> writes one farewell line, closes the channel and ends
  the loop, so that no further line is read. In the source the \<open>quit\<close> case falls out
  of the \<open>switch\<close> and the loop calls \<open>ReadLine\<close> again: when the terminal still holds
  the line \<open>whoami\<close>, it is read and evaluated after the channel was closed.
\<close>

theorem quit_then_more_lines:
  "createTerminal \<lparr>User = ''alice'', ConnPermissions = None\<rparr>
     [Inr ''quit'', Inr ''whoami'', Inl ''EOF''] =
   ([ReadLine ''quit'', TermWrite ''Goodbye!\<newline>'', TermChanClose,
     ReadLine ''whoami'', TermWrite ''You are: alice\<newline>'',
     TermPrintf ''ReadLine error: EOF'', TermChanClose], Finished)"
  by (simp add: eval_line_def execSomething_def)

section \<open>The client's exit code\<close>

text \<open>With a command, the client ends with exit code 1 or returns normally.\<close>

lemma command_exit_codes:
  "command f \<noteq> [] \<Longrightarrow> clientCmd w f = OsExit 1 \<or> clientCmd w f = NormalReturn"
  by (simp add: clientCmd_def split: option.splits sum.splits)

text \<open>
  C4. The claim: with a non-empty command, a non-zero exit status reported by the
  remote side becomes the client's exit code. When the remote side reports status 3,
  the client run with a command exits with code 1, as it does for every failure; run
  without a command, on the interactive path, it exits with code 3.
\<close>

theorem run_exit_status_not_mirrored:
  "clientCmd example_world
     \<lparr>host = ''localhost'', port = ''2022'', user = ''alice'', clientKeyPath = ''id_rsa'',
      command = ''whoami'', timeout = ''10s''\<rparr> = OsExit 1 \<and>
   clientCmd example_world
     \<lparr>host = ''localhost'', port = ''2022'', user = ''alice'', clientKeyPath = ''id_rsa'',
      command = [], timeout = ''10s''\<rparr> = OsExit 3"
  by (simp add: clientCmd_def example_world_def)

section \<open>Authorized keys\<close>

text \<open>
  The authorized-keys input seen as a sequence of entries: an entry is a non-empty
  piece of text \<open>e\<close> (a key line with its line end) with the key \<open>k\<close> that the
  library parses off the front of any input starting with \<open>e\<close>, handing back what
  follows. Loading the concatenation of such entries ends, and marks exactly the
  marshaled bytes of their keys.
\<close>

lemma load_authorized_keys_entries:
  assumes "\<forall>(e, k) \<in> set es. e \<noteq> [] \<and> (\<forall>rest. ParseAuthorizedKey lib (e @ rest) = Inr (k, rest))"
  shows "load_authorized_keys lib m0 (concat (map fst es)) =
         Some (Inr (\<lambda>b. if b \<in> Marshal lib ` snd ` set es then Some True else m0 b))"
  using assms
proof (induction es arbitrary: m0)
  case Nil
  show ?case by (simp add: load_authorized_keys.simps)
next
  case (Cons x es)
  obtain e k where x: "x = (e, k)" by (cases x)
  from Cons.prems x have e: "e \<noteq> []"
    and parse: "\<And>rest. ParseAuthorizedKey lib (e @ rest) = Inr (k, rest)"
    and rest: "\<forall>(e, k) \<in> set es. e \<noteq> [] \<and> (\<forall>rest. ParseAuthorizedKey lib (e @ rest) = Inr (k, rest))"
    by auto
  have "load_authorized_keys lib m0 (concat (map fst (x # es))) =
        load_authorized_keys lib (m0(Marshal lib k \<mapsto> True)) (concat (map fst es))"
    using e parse by (subst load_authorized_keys.simps) (simp add: x)
  also have "\<dots> = Some (Inr (\<lambda>b. if b \<in> Marshal lib ` snd ` set es then Some True
                                   else (m0(Marshal lib k \<mapsto> True)) b))"
    by (rule Cons.IH [OF rest])
  also have "(\<lambda>b. if b \<in> Marshal lib ` snd ` set es then Some True
                   else (m0(Marshal lib k \<mapsto> True)) b) =
             (\<lambda>b. if b \<in> Marshal lib ` snd ` set (x # es) then Some True else m0 b)"
    by (rule ext) (auto simp: x)
  finally show ?case .
qed

lemma pubkey_callback_member:
  "pubkey_callback lib (\<lambda>b. if b \<in> S then Some True else None) usr pubKey =
     (if Marshal lib pubKey \<in> S
      then Inr \<lparr>Extensions = [''pubkey-fp'' \<mapsto> FingerprintSHA256 lib pubKey]\<rparr>
      else Inl (ErrUnknownPublicKey usr))"
  by (simp add: pubkey_callback_def map_index_def)

text \<open>
  C9. Membership is decided by the marshaled bytes of the keys and does not depend on
  the order of the entries: two inputs made of the same set of entries, in any order
  (\<open>es'\<close> is in particular any reordering of \<open>es\<close>), load to the same map; a byte
  string is a member exactly when it is the marshaled form of the key of an entry; and
  the authentication callback grants permission to a key exactly when its marshaled
  bytes are a member, returning an error for every other key.
\<close>

theorem authorized_keys_order_independent:
  assumes "\<forall>(e, k) \<in> set es. e \<noteq> [] \<and> (\<forall>rest. ParseAuthorizedKey lib (e @ rest) = Inr (k, rest))"
    and "set es' = set es"
  shows "\<exists>m. load_authorized_keys lib Map.empty (concat (map fst es)) = Some (Inr m) \<and>
             load_authorized_keys lib Map.empty (concat (map fst es')) = Some (Inr m) \<and>
             (\<forall>b. map_index m b = (b \<in> Marshal lib ` snd ` set es)) \<and>
             (\<forall>usr pubKey.
                pubkey_callback lib m usr pubKey =
                  (if Marshal lib pubKey \<in> Marshal lib ` snd ` set es
                   then Inr \<lparr>Extensions = [''pubkey-fp'' \<mapsto> FingerprintSHA256 lib pubKey]\<rparr>
                   else Inl (ErrUnknownPublicKey usr)))"
proof -
  let ?m = "\<lambda>b. if b \<in> Marshal lib ` snd ` set es then Some True else None"
  from assms have es': "\<forall>(e, k) \<in> set es'. e \<noteq> [] \<and> (\<forall>rest. ParseAuthorizedKey lib (e @ rest) = Inr (k, rest))"
    by simp
  have 1: "load_authorized_keys lib Map.empty (concat (map fst es)) = Some (Inr ?m)"
    by (rule load_authorized_keys_entries [OF assms(1)])
  have 2: "load_authorized_keys lib Map.empty (concat (map fst es')) = Some (Inr ?m)"
    using load_authorized_keys_entries [OF es', of Map.empty] by (simp add: assms(2))
  have 3: "\<forall>b. map_index ?m b = (b \<in> Marshal lib ` snd ` set es)"
    by (simp add: map_index_def)
  have 4: "\<forall>usr pubKey. pubkey_callback lib ?m usr pubKey =
                  (if Marshal lib pubKey \<in> Marshal lib ` snd ` set es
                   then Inr \<lparr>Extensions = [''pubkey-fp'' \<mapsto> FingerprintSHA256 lib pubKey]\<rparr>
                   else Inl (ErrUnknownPublicKey usr))"
    by (simp add: pubkey_callback_member)
  from 1 2 3 4 show ?thesis by blast
qed

theorem authorized_keys_order_independent_witness:
  "\<exists>m. load_authorized_keys example_library Map.empty ''ka\<newline>kb\<newline>'' = Some (Inr m) \<and>
       load_authorized_keys example_library Map.empty ''kb\<newline>ka\<newline>'' = Some (Inr m) \<and>
       map_index m ''ka'' \<and> map_index m ''kb'' \<and> \<not> map_index m ''kc'' \<and>
       pubkey_callback example_library m ''alice'' ''kb'' =
         Inr \<lparr>Extensions = [''pubkey-fp'' \<mapsto> ''SHA256:kb'']\<rparr> \<and>
       pubkey_callback example_library m ''mallory'' ''kc'' = Inl (ErrUnknownPublicKey ''mallory'')"
proof -
  have h: "\<forall>(e, k) \<in> set [(''ka\<newline>'', ''ka''), (''kb\<newline>'', ''kb'')].
             e \<noteq> [] \<and> (\<forall>rest. ParseAuthorizedKey example_library (e @ rest) = Inr (k, rest))"
    by (simp add: example_library_def)
  have s: "set [(''kb\<newline>'', ''kb''), (''ka\<newline>'', ''ka'')] =
           set [(''ka\<newline>'', ''ka''), (''kb\<newline>'', ''kb'')]"
    by auto
  from authorized_keys_order_independent [OF h s]
  obtain m where
    1: "load_authorized_keys example_library Map.empty (concat (map fst [(''ka\<newline>'', ''ka''), (''kb\<newline>'', ''kb'')])) = Some (Inr m)"
    and 2: "load_authorized_keys example_library Map.empty (concat (map fst [(''kb\<newline>'', ''kb''), (''ka\<newline>'', ''ka'')])) = Some (Inr m)"
    and 3: "\<forall>b. map_index m b = (b \<in> Marshal example_library ` snd ` set [(''ka\<newline>'', ''ka''), (''kb\<newline>'', ''kb'')])"
    and 4: "\<forall>usr pubKey. pubkey_callback example_library m usr pubKey =
                  (if Marshal example_library pubKey \<in> Marshal example_library ` snd ` set [(''ka\<newline>'', ''ka''), (''kb\<newline>'', ''kb'')]
                   then Inr \<lparr>Extensions = [''pubkey-fp'' \<mapsto> FingerprintSHA256 example_library pubKey]\<rparr>
                   else Inl (ErrUnknownPublicKey usr))"
    by blast
  have a: "load_authorized_keys example_library Map.empty ''ka\<newline>kb\<newline>'' = Some (Inr m)"
    using 1 by simp
  have b: "load_authorized_keys example_library Map.empty ''kb\<newline>ka\<newline>'' = Some (Inr m)"
    using 2 by simp
  have c: "map_index m ''ka''" "map_index m ''kb''" "\<not> map_index m ''kc''"
    using 3 by (simp_all add: example_library_def)
  have d: "pubkey_callback example_library m ''alice'' ''kb'' =
         Inr \<lparr>Extensions = [''pubkey-fp'' \<mapsto> ''SHA256:kb'']\<rparr>"
    using 4 by (simp add: example_library_def)
  have e: "pubkey_callback example_library m ''mallory'' ''kc'' = Inl (ErrUnknownPublicKey ''mallory'')"
    using 4 by (simp add: example_library_def)
  from a b c d e show ?thesis by blast
qed

text \<open>
  C10. With an empty authorized-keys input the loading loop does not run and the key
  set is empty; \<open>StartServer\<close> goes on to its accept loop (given that the host key
  parses and the listener binds); and the authentication callback of its configuration
  returns the unknown-key error for every user and every offered key.
\<close>

theorem empty_authorized_keys_admit_nobody:
  assumes "ParsePrivateKey lib privateKey = Inr private"
  shows "load_authorized_keys lib Map.empty [] = Some (Inr Map.empty) \<and>
         StartServer lib privateKey [] None arrivals =
           Some (Serving \<lparr>PublicKeyCallback = pubkey_callback lib Map.empty, HostKeys = [private]\<rparr>
                   (LogPrintln ''SSH server started on port 2022'' # accept_loop arrivals)) \<and>
         pubkey_callback lib Map.empty usr pubKey = Inl (ErrUnknownPublicKey usr)"
  using assms
  by (simp add: StartServer_def load_authorized_keys.simps pubkey_callback_def map_index_def)

theorem empty_authorized_keys_admit_nobody_witness:
  "ParsePrivateKey example_library ''hostkey'' = Inr ''hostkey'' \<and>
   load_authorized_keys example_library Map.empty [] = Some (Inr Map.empty) \<and>
   StartServer example_library ''hostkey'' [] None [] =
     Some (Serving \<lparr>PublicKeyCallback = pubkey_callback example_library Map.empty,
                    HostKeys = [''hostkey'']\<rparr>
             [LogPrintln ''SSH server started on port 2022'']) \<and>
   pubkey_callback example_library Map.empty ''alice'' ''ka'' = Inl (ErrUnknownPublicKey ''alice'')"
proof -
  have h: "ParsePrivateKey example_library ''hostkey'' = Inr ''hostkey''"
    by (simp add: example_library_def)
  from empty_authorized_keys_admit_nobody [OF h, of "[]" "''alice''" "''ka''"] h
  show ?thesis by simp
qed

section \<open>The accept loop\<close>

lemma accept_loop_append:
  "accept_loop (xs @ ys) = accept_loop xs @ accept_loop ys"
  by (induction xs rule: accept_loop.induct) simp_all

text \<open>
  C3, as stated: a listener-level failure, be it of the bind or of an accept, ends
  \<open>StartServer\<close> and is returned to the caller. When \<open>listener.Accept()\<close> fails, the
  source prints the error and continues the loop: after a failed accept
  \<open>StartServer\<close> has not returned and is still serving.
\<close>

theorem accept_error_counterexample:
  "StartServer example_library ''hostkey'' ''ka\<newline>'' None
     [AcceptFails ''use of closed network connection''] =
   Some (Serving
     \<lparr>PublicKeyCallback = pubkey_callback example_library [''ka'' \<mapsto> True],
      HostKeys = [''hostkey'']\<rparr>
     [LogPrintln ''SSH server started on port 2022'',
      SrvPrintf ''listener accept error: use of closed network connection\<newline>''])"
  by (simp add: StartServer_def load_authorized_keys.simps example_library_def)

text \<open>
  C3, amended. Once the keys are loaded and the host key is parsed: a failure to bind
  the listener ends \<open>StartServer\<close> with that error as its return value; after the bind,
  \<open>StartServer\<close> never returns, whatever arrives: a failed accept and a failed handshake
  are each printed, and the loop goes on with the connection attempts that follow.
\<close>

theorem serve_loop_failures:
  assumes "load_authorized_keys lib Map.empty authorizedKeys = Some (Inr m)"
    and "ParsePrivateKey lib privateKey = Inr private"
  shows "StartServer lib privateKey authorizedKeys (Some err) arrivals = Some (Returns (ErrListen err)) \<and>
         StartServer lib privateKey authorizedKeys None (earlier @ AcceptFails err # later) =
           Some (Serving \<lparr>PublicKeyCallback = pubkey_callback lib m, HostKeys = [private]\<rparr>
             (LogPrintln ''SSH server started on port 2022'' # accept_loop earlier @
              SrvPrintf (''listener accept error: '' @ err @ ''\<newline>'') # accept_loop later)) \<and>
         StartServer lib privateKey authorizedKeys None (earlier @ HandshakeFails err # later) =
           Some (Serving \<lparr>PublicKeyCallback = pubkey_callback lib m, HostKeys = [private]\<rparr>
             (LogPrintln ''SSH server started on port 2022'' # accept_loop earlier @
              SrvPrintf (''new server conn error: '' @ err @ ''\<newline>'') # accept_loop later)) \<and>
         StartServer lib privateKey authorizedKeys None arrivals =
           Some (Serving \<lparr>PublicKeyCallback = pubkey_callback lib m, HostKeys = [private]\<rparr>
             (LogPrintln ''SSH server started on port 2022'' # accept_loop arrivals))"
  using assms by (simp add: StartServer_def accept_loop_append)

theorem serve_loop_failures_witness:
  "load_authorized_keys example_library Map.empty ''ka\<newline>'' = Some (Inr [''ka'' \<mapsto> True]) \<and>
   ParsePrivateKey example_library ''hostkey'' = Inr ''hostkey'' \<and>
   StartServer example_library ''hostkey'' ''ka\<newline>'' (Some ''address already in use'') [] =
     Some (Returns (ErrListen ''address already in use'')) \<and>
   StartServer example_library ''hostkey'' ''ka\<newline>'' None
     [HandshakeFails ''EOF'', HandshakeSucceeds \<lparr>User = ''alice'', ConnPermissions = None\<rparr>] =
     Some (Serving
       \<lparr>PublicKeyCallback = pubkey_callback example_library [''ka'' \<mapsto> True],
        HostKeys = [''hostkey'']\<rparr>
       [LogPrintln ''SSH server started on port 2022'',
        SrvPrintf ''new server conn error: EOF\<newline>'',
        GoDiscardRequests,
        GoHandleConnection \<lparr>User = ''alice'', ConnPermissions = None\<rparr>])"
proof -
  have k: "load_authorized_keys example_library Map.empty ''ka\<newline>'' =
           Some (Inr [''ka'' \<mapsto> True])"
    by (simp add: load_authorized_keys.simps example_library_def)
  have h: "ParsePrivateKey example_library ''hostkey'' = Inr ''hostkey''"
    by (simp add: example_library_def)
  from serve_loop_failures [OF k h, of "''address already in use''" "[]" "[]"
      "[HandshakeSucceeds \<lparr>User = ''alice'', ConnPermissions = None\<rparr>]"]
    serve_loop_failures [OF k h, of "''EOF''" "[]" "[]"
      "[HandshakeSucceeds \<lparr>User = ''alice'', ConnPermissions = None\<rparr>]"]
    k h
  show ?thesis by simp
qed

end
